theory Spec2Isabelle
  imports Complex_Main "HOL-Library.Word"
begin

section \<open>Aura Intuitive: the consultation server\<close>

text \<open>
  A shallow embedding of the Express server (\<^verbatim>\<open>server.ts\<close>), its types
  (\<^verbatim>\<open>types.ts\<close>) and the table of \<^verbatim>\<open>schema.sql\<close>.

  Strings are the UTF-8 bytes of the source text: an accented letter of a French message
  is written as its bytes (\<open>CHR 0xC3, CHR 0xA9\<close> for e-acute), an apostrophe as
  \<open>CHR 0x27\<close>.
  A stored amount is an exact rational, as the column \<^verbatim>\<open>NUMERIC(10,2)\<close> holds it; a
  number the server computes with is a JavaScript number, a binary64 value.
\<close>

subsection \<open>Data model\<close>

text \<open>The column \<^verbatim>\<open>status\<close> with its CHECK constraint, \<^verbatim>\<open>'paid' | 'submitted' | 'answered'\<close>.\<close>

datatype status = Paid | Submitted | Answered

text \<open>The column type \<^verbatim>\<open>UUID\<close>: a 128-bit value.\<close>

type_synonym uuid = "128 word"

text \<open>
  \<^verbatim>\<open>interface Consultation\<close> and the table \<^verbatim>\<open>consultations\<close>, with the column types
  of the table. A nullable column is an option. The field \<^verbatim>\<open>id\<close> is \<open>id_c\<close> here.
  The amount a handler inserts is \<^verbatim>\<open>amountTotal / 100\<close>, a double whose JSON text is the
  decimal with two places that the column then holds.
\<close>

record consultation =
  id_c :: uuid
  stripe_session_id :: string
  service :: string
  amount :: rat
  status :: status
  customer_email :: "string option"
  name :: "string option"
  email :: "string option"
  birthdate :: "string option"
  person_concerned :: "string option"
  message :: "string option"
  response :: "string option"
  submitted_at :: "string option"
  answered_at :: "string option"
  created_at :: string

type_synonym store = "consultation list"

text \<open>
  \<^verbatim>\<open>interface SubmitBody\<close> and \<^verbatim>\<open>interface RespondBody\<close>, as the parsed request body:
  a field that is missing or null is \<open>None\<close>. The fields carry the suffix \<open>_b\<close>.
\<close>

record SubmitBody =
  session_id_b :: "string option"
  name_b :: "string option"
  email_b :: "string option"
  birthdate_b :: "string option"
  person_concerned_b :: "string option"
  message_b :: "string option"

record RespondBody =
  id_b :: "string option"
  response_b :: "string option"

text \<open>
  The part of \<^verbatim>\<open>Stripe.Checkout.Session\<close> the server reads: \<^verbatim>\<open>id\<close>,
  \<^verbatim>\<open>payment_status\<close>, \<^verbatim>\<open>amount_total\<close> (in cents, nullable) and
  \<^verbatim>\<open>customer_details?.email\<close>; and the part of \<^verbatim>\<open>Stripe.Event\<close>: \<^verbatim>\<open>type\<close> and
  \<^verbatim>\<open>data.object\<close>.
\<close>

record session =
  id_s :: string
  payment_status :: string
  amount_total :: "int option"
  customer_details_email :: "string option"

record event =
  type_e :: string
  data_object :: session

text \<open>
  A JavaScript number: a finite binary64 value, given by the rational it denotes, or one
  of the three values that are not finite. The sign of zero is not kept: JSON prints
  both zeros as \<^verbatim>\<open>0\<close>.
\<close>

datatype number = Finite rat | PosInfinity | NegInfinity | NaN

text \<open>
  What \<^verbatim>\<open>await resend.emails.send(...)\<close> does: it resolves to \<^verbatim>\<open>{data, error: null}\<close>
  (the mail was accepted), it resolves to \<^verbatim>\<open>{data: null, error}\<close> (the mail was
  refused: the notifier's \<^verbatim>\<open>DeliveryError\<close>, returned as a value), or it throws.
\<close>

datatype send_outcome = Sent | ReturnedError | Threw

text \<open>
  What a handler passes to \<^verbatim>\<open>res\<close>: \<^verbatim>\<open>res.status(n).json(body)\<close> (\<^verbatim>\<open>res.json\<close> alone
  is status 200), \<^verbatim>\<open>res.redirect(url)\<close> or \<^verbatim>\<open>res.sendFile(file)\<close> of a file under
  \<^verbatim>\<open>public/\<close>.
\<close>

datatype body =
    ErrorBody string
  | ReceivedBody bool
  | SuccessBody bool
  | RespondResult bool bool string
  | StatsBody nat nat nat number

datatype reply = Json nat body | Redirect string | SendFile string

text \<open>
  The calls a handler makes on its collaborators, in the order it makes them: the store
  (with whether the call returned an error), the payment provider, the mailer (with the
  recipient and what the send did) and the console.
\<close>

datatype effect =
    DbSelect
  | DbInsert bool
  | DbUpdate bool
  | DbDelete bool
  | StripeRetrieve
  | EmailSend "string option" send_outcome
  | ConsoleError
  | ConsoleLog

text \<open>
  Everything outside the process that decides how a request goes: whether the store
  reports an error on a call of each kind for a reason of its own (the network, the
  service), what the provider's library answers, what the mailer does, the server's clock
  and the defaults the table generates for \<^verbatim>\<open>id\<close> and \<^verbatim>\<open>created_at\<close>. A handler makes
  at most one store call of each kind.
\<close>

record world =
  select_error :: bool
  insert_error :: bool
  update_error :: bool
  delete_error :: bool
  constructEvent :: "string \<Rightarrow> string \<Rightarrow> string + event"
  retrieve :: "string \<Rightarrow> session option"
  emails_send :: send_outcome
  now :: string
  uuid_generate_v4 :: uuid
  db_now :: string

text \<open>What a handler leaves behind: its reply, the table and the calls it made.\<close>

record result =
  reply :: reply
  db :: store
  effects :: "effect list"

subsection \<open>JavaScript operators\<close>

text \<open>\<^verbatim>\<open>!x\<close> on a value that is a string, null or undefined.\<close>

fun falsy :: "string option \<Rightarrow> bool" where
  "falsy None = True"
| "falsy (Some s) = (s = [])"

text \<open>\<^verbatim>\<open>x || null\<close>.\<close>

definition or_null :: "string option \<Rightarrow> string option" where
  "or_null x = (if falsy x then None else x)"

text \<open>\<^verbatim>\<open>x || y\<close> with \<open>y\<close> a string.\<close>

definition or_else :: "string option \<Rightarrow> string \<Rightarrow> string" where
  "or_else x y = (case x of None \<Rightarrow> y | Some s \<Rightarrow> if s = [] then y else s)"

text \<open>\<^verbatim>\<open>x ?? 0\<close>.\<close>

definition nullish0 :: "int option \<Rightarrow> int" where
  "nullish0 x = (case x of None \<Rightarrow> 0 | Some n \<Rightarrow> n)"

text \<open>A field already tested with \<open>falsy\<close>, read as a string.\<close>

definition str :: "string option \<Rightarrow> string" where
  "str x = (case x of None \<Rightarrow> [] | Some s \<Rightarrow> s)"

subsection \<open>JavaScript numbers\<close>

text \<open>The number of binary digits of a positive integer.\<close>

function bit_length :: "int \<Rightarrow> nat" where
  "bit_length n = (if n \<le> 0 then 0 else Suc (bit_length (n div 2)))"
  by pat_completeness auto
termination
  by (relation "measure nat") auto

declare bit_length.simps [simp del]

text \<open>The integer nearest to \<open>n / d\<close> (\<open>d\<close> positive), the even one of two equally near.\<close>

definition round_half_even :: "int \<Rightarrow> int \<Rightarrow> int" where
  "round_half_even n d =
     (let f = n div d; r = n mod d
      in if 2 * r < d then f else if d < 2 * r then f + 1 else if even f then f else f + 1)"

text \<open>The exponent \<open>e\<close> with \<open>2 ^ e \<le> p / q < 2 ^ (e + 1)\<close>, for \<open>p\<close> and \<open>q\<close> positive.\<close>

definition floor_log2 :: "int \<Rightarrow> int \<Rightarrow> int" where
  "floor_log2 p q =
     (let d = int (bit_length p) - int (bit_length q)
      in if (if 0 \<le> d then q * 2 ^ nat d \<le> p else q \<le> p * 2 ^ nat (- d)) then d else d - 1)"

text \<open>
  The binary64 value nearest to a rational, ties to even (IEEE 754, which ECMAScript
  follows for reading a decimal literal and for \<^verbatim>\<open>+\<close>): 53 significant bits from the
  exponent -1022 up, multiples of \<open>2 ^ -1074\<close> below, and an infinity when the rounded
  value would reach \<open>2 ^ 1024\<close>.
\<close>

definition round_number :: "rat \<Rightarrow> number" where
  "round_number x =
     (if x = 0 then Finite 0
      else
        let (p, q) = quotient_of \<bar>x\<bar>;
            e = max (floor_log2 p q) (- 1022);
            k = e - 52;
            n = (if 0 \<le> k then round_half_even p (q * 2 ^ nat k)
                 else round_half_even (p * 2 ^ nat (- k)) q);
            m = (if 0 \<le> k then of_int (n * 2 ^ nat k) else Fract n (2 ^ nat (- k)))
        in if 0 \<le> k \<and> 2 ^ 1024 \<le> n * 2 ^ nat k
           then (if 0 < x then PosInfinity else NegInfinity)
           else Finite (if 0 < x then m else - m))"

text \<open>\<^verbatim>\<open>x + y\<close> on numbers.\<close>

fun js_plus :: "number \<Rightarrow> number \<Rightarrow> number" where
  "js_plus (Finite a) (Finite b) = round_number (a + b)"
| "js_plus NaN y = NaN"
| "js_plus x NaN = NaN"
| "js_plus PosInfinity NegInfinity = NaN"
| "js_plus NegInfinity PosInfinity = NaN"
| "js_plus PosInfinity y = PosInfinity"
| "js_plus x PosInfinity = PosInfinity"
| "js_plus NegInfinity y = NegInfinity"
| "js_plus x NegInfinity = NegInfinity"

text \<open>\<^verbatim>\<open>x || 0\<close> on a number: zero and \<^verbatim>\<open>NaN\<close> are falsy.\<close>

fun or_zero :: "number \<Rightarrow> number" where
  "or_zero NaN = Finite 0"
| "or_zero (Finite a) = (if a = 0 then Finite 0 else Finite a)"
| "or_zero x = x"

subsection \<open>The store\<close>

text \<open>
  How the store reads the text of a \<^verbatim>\<open>UUID\<close> (PostgreSQL's \<^verbatim>\<open>uuid\<close> input): sixteen
  bytes of two hexadecimal digits each, in either case; a hyphen may follow every second
  byte but the last; the whole may stand in braces; nothing may follow.
\<close>

definition hex_digit :: "char \<Rightarrow> nat option" where
  "hex_digit c = map_of
     [(CHR ''0'', 0), (CHR ''1'', 1), (CHR ''2'', 2), (CHR ''3'', 3), (CHR ''4'', 4),
      (CHR ''5'', 5), (CHR ''6'', 6), (CHR ''7'', 7), (CHR ''8'', 8), (CHR ''9'', 9),
      (CHR ''a'', 10), (CHR ''b'', 11), (CHR ''c'', 12), (CHR ''d'', 13), (CHR ''e'', 14),
      (CHR ''f'', 15),
      (CHR ''A'', 10), (CHR ''B'', 11), (CHR ''C'', 12), (CHR ''D'', 13), (CHR ''E'', 14),
      (CHR ''F'', 15)] c"

definition skip_hyphen :: "nat \<Rightarrow> string \<Rightarrow> string" where
  "skip_hyphen i src =
     (case src of
        c # rest \<Rightarrow> if c = CHR ''-'' \<and> i mod 2 = 1 \<and> i < 15 then rest else src
      | [] \<Rightarrow> src)"

text \<open>The loop over the bytes; \<open>Suc k\<close> bytes are still to read, so the index is \<open>15 - k\<close>.\<close>

fun uuid_loop :: "nat \<Rightarrow> string \<Rightarrow> uuid \<Rightarrow> (uuid \<times> string) option" where
  "uuid_loop 0 src acc = Some (acc, src)"
| "uuid_loop (Suc k) src acc =
     (case src of
        h # l # rest \<Rightarrow>
          (case hex_digit h of
             None \<Rightarrow> None
           | Some a \<Rightarrow>
               (case hex_digit l of
                  None \<Rightarrow> None
                | Some b \<Rightarrow>
                    uuid_loop k (skip_hyphen (15 - k) rest) (acc * 256 + of_nat (16 * a + b))))
      | _ \<Rightarrow> None)"

definition uuid_in :: "string \<Rightarrow> uuid option" where
  "uuid_in source =
     (let braces = (case source of c # _ \<Rightarrow> c = CHR ''{'' | [] \<Rightarrow> False);
          src = (if braces then tl source else source)
      in case uuid_loop 16 src 0 of
           None \<Rightarrow> None
         | Some (u, rest) \<Rightarrow>
             if braces then (if rest = ''}'' then Some u else None)
             else if rest = [] then Some u else None)"

text \<open>
  \<^verbatim>\<open>.single()\<close>: the row when exactly one row matches, an error (no data) otherwise.
\<close>

fun single :: "'a list \<Rightarrow> 'a option" where
  "single [x] = Some x"
| "single xs = None"

text \<open>\<^verbatim>\<open>.select(...).eq(column, value).single()\<close>; \<open>None\<close> is \<^verbatim>\<open>error || !data\<close>.\<close>

definition select_single :: "world \<Rightarrow> (consultation \<Rightarrow> bool) \<Rightarrow> store \<Rightarrow> consultation option" where
  "select_single w p st = (if select_error w then None else single (filter p st))"

text \<open>
  \<^verbatim>\<open>.insert(row)\<close>; \<open>None\<close> is an error, and then the table is as before. The
  table refuses a second row with the same \<^verbatim>\<open>stripe_session_id\<close> (UNIQUE) or the same
  \<^verbatim>\<open>id\<close> (PRIMARY KEY).
\<close>

definition insert_row :: "world \<Rightarrow> consultation \<Rightarrow> store \<Rightarrow> store option" where
  "insert_row w r st =
     (if insert_error w
         \<or> stripe_session_id r \<in> set (map stripe_session_id st)
         \<or> id_c r \<in> set (map id_c st)
      then None else Some (st @ [r]))"

text \<open>
  \<^verbatim>\<open>.update(fields).eq(column, value)\<close>: every matching row gets the fields; \<open>None\<close>
  is an error, and then the table is as before.
\<close>

definition update_rows ::
  "world \<Rightarrow> (consultation \<Rightarrow> consultation) \<Rightarrow> (consultation \<Rightarrow> bool) \<Rightarrow> store \<Rightarrow> store option" where
  "update_rows w f p st =
     (if update_error w then None else Some (map (\<lambda>r. if p r then f r else r) st))"

text \<open>
  \<^verbatim>\<open>.delete().eq(column, value)\<close>: every matching row goes; \<open>None\<close> is an error,
  and then the table is as before.
\<close>

definition delete_rows :: "world \<Rightarrow> (consultation \<Rightarrow> bool) \<Rightarrow> store \<Rightarrow> store option" where
  "delete_rows w p st =
     (if delete_error w then None else Some (filter (\<lambda>r. \<not> p r) st))"

text \<open>
  The same three calls with \<^verbatim>\<open>.eq('id', value)\<close>: the store compares the column with the
  \<^verbatim>\<open>UUID\<close> it reads from the text, and a text that is not a \<^verbatim>\<open>UUID\<close> is an error
  (invalid input syntax).
\<close>

definition select_single_id :: "world \<Rightarrow> string \<Rightarrow> store \<Rightarrow> consultation option" where
  "select_single_id w i st =
     (case uuid_in i of None \<Rightarrow> None | Some u \<Rightarrow> select_single w (\<lambda>c. id_c c = u) st)"

definition update_rows_id ::
  "world \<Rightarrow> (consultation \<Rightarrow> consultation) \<Rightarrow> string \<Rightarrow> store \<Rightarrow> store option" where
  "update_rows_id w f i st =
     (case uuid_in i of None \<Rightarrow> None | Some u \<Rightarrow> update_rows w f (\<lambda>c. id_c c = u) st)"

definition delete_rows_id :: "world \<Rightarrow> string \<Rightarrow> store \<Rightarrow> store option" where
  "delete_rows_id w i st =
     (case uuid_in i of None \<Rightarrow> None | Some u \<Rightarrow> delete_rows w (\<lambda>c. id_c c = u) st)"

subsection \<open>The service label\<close>

text \<open>
  \<^verbatim>\<open>webhookHandler\<close>: \<^verbatim>\<open>if (amountTotal >= 1000) { service = 'Consultation Ressenti'; }
  else { service = ... }\<close>, the second label being the French for "Answer Yes / No".
\<close>

definition webhook_service :: "int \<Rightarrow> string" where
  "webhook_service amountTotal =
     (if amountTotal \<ge> 1000 then ''Consultation Ressenti''
      else ''R'' @ [CHR 0xC3, CHR 0xA9] @ ''ponse Oui / Non'')"

text \<open>
  The submit handler, where the webhook was late:
  \<^verbatim>\<open>amountTotal >= 1000 ? 'Consultation Ressenti' : ...\<close>, with the same second label.
\<close>

definition submit_service :: "int \<Rightarrow> string" where
  "submit_service amountTotal =
     (if amountTotal \<ge> 1000 then ''Consultation Ressenti''
      else ''R'' @ [CHR 0xC3, CHR 0xA9] @ ''ponse Oui / Non'')"

subsection \<open>POST /api/webhook\<close>

text \<open>The row \<^verbatim>\<open>webhookHandler\<close> inserts; the columns it leaves out take their defaults.\<close>

definition webhook_row :: "world \<Rightarrow> session \<Rightarrow> consultation" where
  "webhook_row w session =
     \<lparr> id_c = uuid_generate_v4 w,
       stripe_session_id = id_s session,
       service = webhook_service (nullish0 (amount_total session)),
       amount = of_int (nullish0 (amount_total session)) / 100,
       status = Paid,
       customer_email = or_null (customer_details_email session),
       name = None, email = None, birthdate = None, person_concerned = None,
       message = None, response = None, submitted_at = None, answered_at = None,
       created_at = db_now w \<rparr>"

text \<open>
  \<^verbatim>\<open>webhookHandler(req, res)\<close>, with \<open>sig\<close> the header \<^verbatim>\<open>stripe-signature\<close> and
  \<open>raw\<close> the raw body. \<open>constructEvent\<close> answers \<open>Inl\<close> of the message when the
  library throws.
\<close>

definition webhookHandler :: "world \<Rightarrow> string option \<Rightarrow> string \<Rightarrow> store \<Rightarrow> result" where
  "webhookHandler w sig raw st =
     (if falsy sig
      then \<lparr> reply = Json 400 (ErrorBody ''Missing stripe-signature header''),
             db = st, effects = [] \<rparr>
      else case constructEvent w raw (str sig) of
        Inl err_message \<Rightarrow>
          \<lparr> reply = Json 400 (ErrorBody (''Webhook Error: '' @ err_message)),
            db = st, effects = [ConsoleError] \<rparr>
      | Inr event \<Rightarrow>
          if type_e event = ''checkout.session.completed''
          then (case insert_row w (webhook_row w (data_object event)) st of
                  None \<Rightarrow>
                    \<lparr> reply = Json 200 (ReceivedBody True),
                      db = st, effects = [DbInsert True, ConsoleError] \<rparr>
                | Some st' \<Rightarrow>
                    \<lparr> reply = Json 200 (ReceivedBody True),
                      db = st', effects = [DbInsert False, ConsoleLog] \<rparr>)
          else \<lparr> reply = Json 200 (ReceivedBody True), db = st, effects = [] \<rparr>)"

subsection \<open>GET /form\<close>

text \<open>
  The handler of \<^verbatim>\<open>GET /form\<close>, with \<open>sessionId\<close> the query parameter
  \<^verbatim>\<open>session_id\<close>. \<open>retrieve\<close> answers \<open>None\<close> when the provider's library throws.
\<close>

definition get_form :: "world \<Rightarrow> string option \<Rightarrow> store \<Rightarrow> result" where
  "get_form w sessionId st =
     (if falsy sessionId
      then \<lparr> reply = Redirect ''/#services'', db = st, effects = [] \<rparr>
      else case select_single w (\<lambda>c. stripe_session_id c = str sessionId) st of
        None \<Rightarrow>
          (case retrieve w (str sessionId) of
             None \<Rightarrow>
               \<lparr> reply = Redirect ''/#services'', db = st,
                 effects = [DbSelect, StripeRetrieve] \<rparr>
           | Some session \<Rightarrow>
               if payment_status session \<noteq> ''paid''
               then \<lparr> reply = Redirect ''/#services'', db = st,
                      effects = [DbSelect, StripeRetrieve] \<rparr>
               else \<lparr> reply = SendFile ''form.html'', db = st,
                      effects = [DbSelect, StripeRetrieve] \<rparr>)
      | Some data \<Rightarrow>
          if status data \<noteq> Paid
          then \<lparr> reply = SendFile ''already-submitted.html'', db = st,
                 effects = [DbSelect] \<rparr>
          else \<lparr> reply = SendFile ''form.html'', db = st, effects = [DbSelect] \<rparr>)"

subsection \<open>POST /api/submit\<close>

text \<open>The fields the submit handler writes into the row of a paid session.\<close>

definition submit_update :: "world \<Rightarrow> SubmitBody \<Rightarrow> consultation \<Rightarrow> consultation" where
  "submit_update w b r =
     r\<lparr> status := Submitted,
        name := name_b b,
        email := email_b b,
        birthdate := or_null (birthdate_b b),
        person_concerned := or_null (person_concerned_b b),
        message := message_b b,
        submitted_at := Some (now w) \<rparr>"

text \<open>The row the submit handler inserts when the webhook has not created one.\<close>

definition fallback_row :: "world \<Rightarrow> SubmitBody \<Rightarrow> session \<Rightarrow> consultation" where
  "fallback_row w b session =
     \<lparr> id_c = uuid_generate_v4 w,
       stripe_session_id = str (session_id_b b),
       service = submit_service (nullish0 (amount_total session)),
       amount = of_int (nullish0 (amount_total session)) / 100,
       status = Submitted,
       customer_email = Some (or_else (customer_details_email session) (str (email_b b))),
       name = name_b b,
       email = email_b b,
       birthdate = or_null (birthdate_b b),
       person_concerned = or_null (person_concerned_b b),
       message = message_b b,
       response = None,
       submitted_at = Some (now w),
       answered_at = None,
       created_at = db_now w \<rparr>"

text \<open>The branch \<^verbatim>\<open>if (fetchError || !consultation)\<close>: "Double check with Stripe".\<close>

definition submit_fallback :: "world \<Rightarrow> SubmitBody \<Rightarrow> store \<Rightarrow> result" where
  "submit_fallback w b st =
     (case retrieve w (str (session_id_b b)) of
        None \<Rightarrow>
          \<lparr> reply = Json 403 (ErrorBody ''Session de paiement invalide.''),
            db = st, effects = [DbSelect, StripeRetrieve] \<rparr>
      | Some session \<Rightarrow>
          if payment_status session \<noteq> ''paid''
          then \<lparr> reply = Json 403 (ErrorBody
                   (''Paiement non v'' @ [CHR 0xC3, CHR 0xA9] @ ''rifi''
                      @ [CHR 0xC3, CHR 0xA9] @ ''.'')),
                 db = st, effects = [DbSelect, StripeRetrieve] \<rparr>
          else (case insert_row w (fallback_row w b session) st of
                  None \<Rightarrow>
                    \<lparr> reply = Json 500 (ErrorBody
                        (''Erreur lors de l'' @ [CHR 0x27] @ ''enregistrement.'')),
                      db = st,
                      effects = [DbSelect, StripeRetrieve, DbInsert True, ConsoleError] \<rparr>
                | Some st' \<Rightarrow>
                    \<lparr> reply = Json 200 (SuccessBody True),
                      db = st',
                      effects = [DbSelect, StripeRetrieve, DbInsert False] \<rparr>))"

text \<open>The handler of \<^verbatim>\<open>POST /api/submit\<close>.\<close>

definition post_submit :: "world \<Rightarrow> SubmitBody \<Rightarrow> store \<Rightarrow> result" where
  "post_submit w b st =
     (if falsy (session_id_b b) \<or> falsy (name_b b) \<or> falsy (email_b b) \<or> falsy (message_b b)
      then \<lparr> reply = Json 400 (ErrorBody ''Champs obligatoires manquants.''),
             db = st, effects = [] \<rparr>
      else case select_single w (\<lambda>c. stripe_session_id c = str (session_id_b b)) st of
        None \<Rightarrow> submit_fallback w b st
      | Some consultation \<Rightarrow>
          if status consultation \<noteq> Paid
          then \<lparr> reply = Json 400 (ErrorBody
                   (''Vous avez d'' @ [CHR 0xC3, CHR 0xA9] @ ''j'' @ [CHR 0xC3, CHR 0xA0]
                      @ '' soumis votre question pour cette consultation.'')),
                 db = st, effects = [DbSelect] \<rparr>
          else (case update_rows w (submit_update w b)
                       (\<lambda>c. stripe_session_id c = str (session_id_b b)) st of
                  None \<Rightarrow>
                    \<lparr> reply = Json 500 (ErrorBody
                        (''Erreur lors de l'' @ [CHR 0x27] @ ''enregistrement.'')),
                      db = st, effects = [DbSelect, DbUpdate True, ConsoleError] \<rparr>
                | Some st' \<Rightarrow>
                    \<lparr> reply = Json 200 (SuccessBody True),
                      db = st', effects = [DbSelect, DbUpdate False, ConsoleLog] \<rparr>))"

subsection \<open>The admin routes\<close>

text \<open>
  \<^verbatim>\<open>requireAdmin(req, res, next)\<close>: \<open>admin\<close> is \<^verbatim>\<open>req.session?.admin\<close>, \<open>next\<close>
  what the handler behind the gate does. The message is the French for "Not authorised".
\<close>

definition requireAdmin :: "bool \<Rightarrow> store \<Rightarrow> result \<Rightarrow> result" where
  "requireAdmin admin st next =
     (if admin then next
      else \<lparr> reply = Json 401 (ErrorBody (''Non autoris'' @ [CHR 0xC3, CHR 0xA9] @ ''.'')),
             db = st, effects = [] \<rparr>)"

text \<open>
  The handler of \<^verbatim>\<open>GET /api/admin/stats\<close>. \<open>all\<close> is the rows of
  \<^verbatim>\<open>.select('status, amount').in('status', ['submitted', 'answered'])\<close> as the server
  has them: the amount of a row comes as a JSON number and is read as the nearest
  binary64 value. The revenue is \<^verbatim>\<open>all.reduce((sum, c) => sum + (c.amount || 0), 0)\<close>.
\<close>

definition stats_rows :: "store \<Rightarrow> (status \<times> number) list" where
  "stats_rows st =
     map (\<lambda>c. (status c, round_number (amount c)))
       (filter (\<lambda>c. status c = Submitted \<or> status c = Answered) st)"

definition get_admin_stats :: "world \<Rightarrow> store \<Rightarrow> result" where
  "get_admin_stats w st =
     (if select_error w
      then \<lparr> reply = Json 500 (ErrorBody
               (''Erreur base de donn'' @ [CHR 0xC3, CHR 0xA9] @ ''es.'')),
             db = st, effects = [DbSelect] \<rparr>
      else
        let all = stats_rows st;
            pending = length (filter (\<lambda>c. fst c = Submitted) all);
            answered = length (filter (\<lambda>c. fst c = Answered) all);
            revenue = foldl (\<lambda>sum c. js_plus sum (or_zero (snd c))) (Finite 0) all
        in \<lparr> reply = Json 200 (StatsBody (length all) pending answered revenue),
             db = st, effects = [DbSelect] \<rparr>)"

text \<open>The fields the respond handler writes.\<close>

definition respond_update :: "world \<Rightarrow> RespondBody \<Rightarrow> consultation \<Rightarrow> consultation" where
  "respond_update w b r =
     r\<lparr> status := Answered,
        response := response_b b,
        answered_at := Some (now w) \<rparr>"

text \<open>
  The two messages of the respond handler: "Response saved and email sent!" and
  "Response saved, but the email could not be sent. You can copy the response and send
  it by hand.", in French; the second holds the check-mark emoji (bytes E2 9C 85).
\<close>

definition respond_message :: "bool \<Rightarrow> string" where
  "respond_message emailSent =
     (if emailSent
      then ''R'' @ [CHR 0xC3, CHR 0xA9] @ ''ponse enregistr'' @ [CHR 0xC3, CHR 0xA9]
             @ ''e et email envoy'' @ [CHR 0xC3, CHR 0xA9] @ '' !''
      else ''R'' @ [CHR 0xC3, CHR 0xA9] @ ''ponse enregistr'' @ [CHR 0xC3, CHR 0xA9]
             @ ''e '' @ [CHR 0xE2, CHR 0x9C, CHR 0x85] @ '' mais l'' @ [CHR 0x27]
             @ ''email n'' @ [CHR 0x27] @ ''a pas pu '' @ [CHR 0xC3, CHR 0xAA]
             @ ''tre envoy'' @ [CHR 0xC3, CHR 0xA9] @ ''. Vous pouvez copier la r''
             @ [CHR 0xC3, CHR 0xA9] @ ''ponse et l'' @ [CHR 0x27]
             @ ''envoyer manuellement.'')"

text \<open>
  The handler of \<^verbatim>\<open>POST /api/admin/respond\<close>. The mail goes to the \<^verbatim>\<open>email\<close> of the
  row as it was fetched. The handler awaits \<^verbatim>\<open>resend.emails.send\<close> inside \<^verbatim>\<open>try\<close> and does
  not read what it resolves to: \<^verbatim>\<open>emailSent = true\<close> is reached unless the call throws.
  The text of the mail (\<^verbatim>\<open>buildResponseEmail\<close>) is not modelled.
\<close>

definition post_admin_respond :: "world \<Rightarrow> RespondBody \<Rightarrow> store \<Rightarrow> result" where
  "post_admin_respond w b st =
     (if falsy (id_b b) \<or> falsy (response_b b)
      then \<lparr> reply = Json 400 (ErrorBody ''Champs manquants.''), db = st, effects = [] \<rparr>
      else case select_single_id w (str (id_b b)) st of
        None \<Rightarrow>
          \<lparr> reply = Json 404 (ErrorBody ''Consultation introuvable.''),
            db = st, effects = [DbSelect] \<rparr>
      | Some consultation \<Rightarrow>
          (case update_rows_id w (respond_update w b) (str (id_b b)) st of
             None \<Rightarrow>
               \<lparr> reply = Json 500 (ErrorBody
                   (''Erreur lors de la mise '' @ [CHR 0xC3, CHR 0xA0] @ '' jour.'')),
                 db = st, effects = [DbSelect, DbUpdate True, ConsoleError] \<rparr>
           | Some st' \<Rightarrow>
               let emailSent = (emails_send w \<noteq> Threw)
               in \<lparr> reply = Json 200 (RespondResult True emailSent (respond_message emailSent)),
                    db = st',
                    effects = [DbSelect, DbUpdate False,
                               EmailSend (email consultation) (emails_send w),
                               if emailSent then ConsoleLog else ConsoleError] \<rparr>))"

text \<open>The handler of \<^verbatim>\<open>DELETE /api/admin/consultations/:id\<close>, \<open>i\<close> being \<^verbatim>\<open>req.params.id\<close>.\<close>

definition delete_admin_consultation :: "world \<Rightarrow> string \<Rightarrow> store \<Rightarrow> result" where
  "delete_admin_consultation w i st =
     (case delete_rows_id w i st of
        None \<Rightarrow>
          \<lparr> reply = Json 500 (ErrorBody ''Erreur lors de la suppression.''),
            db = st, effects = [DbDelete True, ConsoleError] \<rparr>
      | Some st' \<Rightarrow>
          \<lparr> reply = Json 200 (SuccessBody True),
            db = st', effects = [DbDelete False, ConsoleLog] \<rparr>)"

text \<open>The three admin routes as they are mounted, behind \<open>requireAdmin\<close>.\<close>

definition route_admin_stats :: "bool \<Rightarrow> world \<Rightarrow> store \<Rightarrow> result" where
  "route_admin_stats admin w st = requireAdmin admin st (get_admin_stats w st)"

definition route_admin_respond :: "bool \<Rightarrow> world \<Rightarrow> RespondBody \<Rightarrow> store \<Rightarrow> result" where
  "route_admin_respond admin w b st = requireAdmin admin st (post_admin_respond w b st)"

definition route_admin_delete :: "bool \<Rightarrow> world \<Rightarrow> string \<Rightarrow> store \<Rightarrow> result" where
  "route_admin_delete admin w i st = requireAdmin admin st (delete_admin_consultation w i st)"

subsection \<open>The three operations that change a status\<close>

text \<open>
  The webhook, the submission and the admin's response, as steps on the table. The order
  of the states: \<open>paid\<close>, then \<open>submitted\<close>, then \<open>answered\<close>.
\<close>

datatype operation =
    Webhook "string option" string
  | Submit SubmitBody
  | Respond RespondBody

fun apply_operation :: "world \<Rightarrow> operation \<Rightarrow> store \<Rightarrow> store" where
  "apply_operation w (Webhook sig raw) st = db (webhookHandler w sig raw st)"
| "apply_operation w (Submit b) st = db (post_submit w b st)"
| "apply_operation w (Respond b) st = db (post_admin_respond w b st)"

fun rank :: "status \<Rightarrow> nat" where
  "rank Paid = 0"
| "rank Submitted = 1"
| "rank Answered = 2"

subsection \<open>A session to run the handlers on\<close>

text \<open>
  The session of the specification's example, \<^verbatim>\<open>cs_123\<close> with \<^verbatim>\<open>amount_total = 1500\<close>; a
  world where the store answers, the signature \<^verbatim>\<open>sig_ok\<close> verifies (the event's type is
  then read off the raw body), the provider knows \<^verbatim>\<open>cs_123\<close> (paid) and \<^verbatim>\<open>cs_open\<close>
  (unpaid), and the mailer throws; the row the webhook made for \<^verbatim>\<open>cs_123\<close>, with the
  id \<^verbatim>\<open>00000000-0000-0000-0000-0000000000a1\<close>; another row, already submitted, with the id
  ending in \<^verbatim>\<open>a0\<close>; a submission for \<^verbatim>\<open>cs_123\<close> and a response to the row \<^verbatim>\<open>a0\<close>.
\<close>

definition ex_session :: session where
  "ex_session = \<lparr> id_s = ''cs_123'', payment_status = ''paid'',
                   amount_total = Some 1500, customer_details_email = Some ''client@example.org'' \<rparr>"

definition ex_world :: world where
  "ex_world = \<lparr> select_error = False, insert_error = False, update_error = False,
          delete_error = False,
          constructEvent = (\<lambda>raw sig. if sig = ''sig_ok''
             then Inr \<lparr> type_e = raw, data_object = ex_session \<rparr>
             else Inl ''bad signature''),
          retrieve = (\<lambda>sid. if sid = ''cs_123'' then Some ex_session
             else if sid = ''cs_open''
             then Some (ex_session \<lparr> id_s := ''cs_open'', payment_status := ''unpaid'' \<rparr>)
             else None),
          emails_send = Threw,
          now = ''2026-01-01T00:00:00.000Z'',
          uuid_generate_v4 = 0xa2,
          db_now = ''2026-01-01 00:00:00+00'' \<rparr>"

definition ex_paid :: consultation where
  "ex_paid = \<lparr> id_c = 0xa1, stripe_session_id = ''cs_123'',
       service = ''Consultation Ressenti'', amount = 15, status = Paid,
       customer_email = Some ''client@example.org'',
       name = None, email = None, birthdate = None, person_concerned = None,
       message = None, response = None, submitted_at = None, answered_at = None,
       created_at = ''2025-12-31 00:00:00+00'' \<rparr>"

definition ex_other :: consultation where
  "ex_other = ex_paid \<lparr> id_c := 0xa0, stripe_session_id := ''cs_000'', amount := 5,
       service := ''R'' @ [CHR 0xC3, CHR 0xA9] @ ''ponse Oui / Non'',
       status := Submitted, name := Some ''Bob'', email := Some ''bob@example.org'',
       message := Some ''Oui ou non ?'', submitted_at := Some ''2025-12-30T00:00:00.000Z'' \<rparr>"

definition ex_submit :: SubmitBody where
  "ex_submit = \<lparr> session_id_b = Some ''cs_123'', name_b = Some ''Ann'',
       email_b = Some ''ann@example.org'', birthdate_b = None,
       person_concerned_b = Some '''', message_b = Some ''Ma question'' \<rparr>"

definition ex_respond :: RespondBody where
  "ex_respond = \<lparr> id_b = Some ''00000000-0000-0000-0000-0000000000a0'',
       response_b = Some ''Voici ma guidance'' \<rparr>"

section \<open>Properties\<close>

lemmas ex_defs = ex_session_def ex_world_def ex_paid_def ex_other_def ex_submit_def ex_respond_def

lemma ex_world_simps:
  "select_error ex_world = False" "insert_error ex_world = False"
  "update_error ex_world = False" "delete_error ex_world = False"
  "emails_send ex_world = Threw"
  "now ex_world = ''2026-01-01T00:00:00.000Z''"
  "uuid_generate_v4 ex_world = 0xa2"
  "db_now ex_world = ''2026-01-01 00:00:00+00''"
  "retrieve ex_world ''cs_123'' = Some ex_session"
  "retrieve ex_world ''cs_open'' =
     Some (ex_session \<lparr> id_s := ''cs_open'', payment_status := ''unpaid'' \<rparr>)"
  "retrieve ex_world ''cs_unknown'' = None"
  "constructEvent ex_world raw ''sig_ok'' = Inr \<lparr> type_e = raw, data_object = ex_session \<rparr>"
  "constructEvent ex_world raw ''forged'' = Inl ''bad signature''"
  by (simp_all add: ex_world_def)

lemma ex_submit_simps:
  "session_id_b ex_submit = Some ''cs_123''" "name_b ex_submit = Some ''Ann''"
  "email_b ex_submit = Some ''ann@example.org''" "birthdate_b ex_submit = None"
  "person_concerned_b ex_submit = Some []" "message_b ex_submit = Some ''Ma question''"
  by (simp_all add: ex_submit_def)

lemma ex_session_simps:
  "id_s ex_session = ''cs_123''" "payment_status ex_session = ''paid''"
  "amount_total ex_session = Some 1500"
  "customer_details_email ex_session = Some ''client@example.org''"
  by (simp_all add: ex_session_def)

lemma ex_other_simps:
  "id_c ex_other = 0xa0" "stripe_session_id ex_other = ''cs_000''"
  "status ex_other = Submitted" "amount ex_other = 5"
  by (simp_all add: ex_other_def ex_paid_def)

lemma ex_paid_simps:
  "id_c ex_paid = 0xa1" "stripe_session_id ex_paid = ''cs_123''"
  "status ex_paid = Paid" "amount ex_paid = 15" "email ex_paid = None"
  by (simp_all add: ex_paid_def)

lemma ex_uuid_simps:
  "uuid_in ''00000000-0000-0000-0000-0000000000a0'' = Some 0xa0"
  "uuid_in ''00000000-0000-0000-0000-0000000000a1'' = Some 0xa1"
  "uuid_in ''00000000-0000-0000-0000-0000000000A1'' = Some 0xa1"
  "uuid_in ''{000000000000-0000-0000-0000000000a1}'' = Some 0xa1"
  "uuid_in ''00000000-0000-0000-0000-0000000000a9'' = Some 0xa9"
  "uuid_in ''not-a-uuid'' = None"
  "uuid_in ''00000000-0000-0000-0000-0000000000a1 '' = None"
  by code_simp+

subsection \<open>The service label\<close>

text \<open>
  C2. The service label depends on the paid amount alone: from 1000 cents on it is
  "Consultation Ressenti", below 1000 it is the yes/no label, and the submit handler's
  derivation gives the same label as the webhook's for every amount; so do the rows the
  two handlers insert for one provider session.
\<close>

theorem C2_service_label:
  "(1000 \<le> a \<longrightarrow> webhook_service a = ''Consultation Ressenti'')
   \<and> (a < 1000 \<longrightarrow> webhook_service a = ''R'' @ [CHR 0xC3, CHR 0xA9] @ ''ponse Oui / Non'')
   \<and> submit_service a = webhook_service a
   \<and> service (webhook_row w s) = webhook_service (nullish0 (amount_total s))
   \<and> service (fallback_row w' b s) = service (webhook_row w s)"
  by (simp add: webhook_service_def submit_service_def webhook_row_def fallback_row_def)

theorem C2_service_label_witness:
  "webhook_service 1500 = ''Consultation Ressenti''
   \<and> webhook_service 1000 = ''Consultation Ressenti''
   \<and> webhook_service 999 = ''R'' @ [CHR 0xC3, CHR 0xA9] @ ''ponse Oui / Non''
   \<and> submit_service 999 = webhook_service 999
   \<and> submit_service 1500 = webhook_service 1500"
  using C2_service_label [of 1500] C2_service_label [of 1000] C2_service_label [of 999]
  by simp

subsection \<open>The webhook\<close>

text \<open>
  C6. Once the signature verifies, the webhook answers 200 with \<^verbatim>\<open>{received: true}\<close>:
  for an event of any type, and also when the insert fails, which is only written to the
  console and leaves the table as it was. A missing signature or one that does not verify
  is answered with 400, and the table is unchanged.
\<close>

theorem C6_webhook_acknowledges:
  "(falsy sig \<longrightarrow>
      reply (webhookHandler w sig raw st) = Json 400 (ErrorBody ''Missing stripe-signature header'')
      \<and> db (webhookHandler w sig raw st) = st)
   \<and> (\<not> falsy sig \<longrightarrow>
        (\<forall>m. constructEvent w raw (str sig) = Inl m \<longrightarrow>
           reply (webhookHandler w sig raw st) = Json 400 (ErrorBody (''Webhook Error: '' @ m))
           \<and> db (webhookHandler w sig raw st) = st)
      \<and> (\<forall>ev. constructEvent w raw (str sig) = Inr ev \<longrightarrow>
           reply (webhookHandler w sig raw st) = Json 200 (ReceivedBody True)
           \<and> (type_e ev \<noteq> ''checkout.session.completed'' \<longrightarrow>
                db (webhookHandler w sig raw st) = st)
           \<and> (type_e ev = ''checkout.session.completed''
                \<and> insert_row w (webhook_row w (data_object ev)) st = None \<longrightarrow>
                db (webhookHandler w sig raw st) = st
                \<and> effects (webhookHandler w sig raw st) = [DbInsert True, ConsoleError])))"
  by (auto simp: webhookHandler_def split: sum.splits option.splits)

theorem C6_webhook_acknowledges_witness:
  "reply (webhookHandler ex_world (Some ''sig_ok'') ''checkout.session.completed'' [])
     = Json 200 (ReceivedBody True)
   \<and> reply (webhookHandler ex_world (Some ''sig_ok'') ''charge.refunded'' [ex_paid])
     = Json 200 (ReceivedBody True)
   \<and> db (webhookHandler ex_world (Some ''sig_ok'') ''charge.refunded'' [ex_paid]) = [ex_paid]
   \<and> reply (webhookHandler ex_world (Some ''sig_ok'') ''checkout.session.completed'' [ex_paid])
     = Json 200 (ReceivedBody True)
   \<and> effects (webhookHandler ex_world (Some ''sig_ok'') ''checkout.session.completed'' [ex_paid])
     = [DbInsert True, ConsoleError]
   \<and> reply (webhookHandler ex_world (Some ''forged'') ''checkout.session.completed'' [ex_paid])
     = Json 400 (ErrorBody ''Webhook Error: bad signature'')
   \<and> db (webhookHandler ex_world (Some ''forged'') ''checkout.session.completed'' [ex_paid]) = [ex_paid]
   \<and> reply (webhookHandler ex_world None ''checkout.session.completed'' [ex_paid])
     = Json 400 (ErrorBody ''Missing stripe-signature header'')"
  using C6_webhook_acknowledges [of "Some ''sig_ok''" ex_world "''checkout.session.completed''" "[]"]
    C6_webhook_acknowledges [of "Some ''sig_ok''" ex_world "''charge.refunded''" "[ex_paid]"]
    C6_webhook_acknowledges [of "Some ''sig_ok''" ex_world "''checkout.session.completed''" "[ex_paid]"]
    C6_webhook_acknowledges [of "Some ''forged''" ex_world "''checkout.session.completed''" "[ex_paid]"]
    C6_webhook_acknowledges [of None ex_world "''checkout.session.completed''" "[ex_paid]"]
  by (simp add: ex_defs str_def insert_row_def webhook_row_def)

subsection \<open>The form gate\<close>

text \<open>
  C7, as the code has it. \<^verbatim>\<open>GET /form\<close>: without a session id the visitor is redirected
  away. When the store returns the one row of the session and its status is not
  \<open>paid\<close>, the "already submitted" page is served, not the form. When the store returns
  no row, because the table holds none for the session or because the lookup fails, the
  provider is asked: a lookup that throws, or a session that is not paid, ends in the
  same redirect; a paid session is served the form. The handler never answers with an
  error status, and it changes nothing.
\<close>

theorem C7_form_gate:
  "(falsy sessionId \<longrightarrow> reply (get_form w sessionId st) = Redirect ''/#services'')
   \<and> (\<not> falsy sessionId \<and> \<not> select_error w
        \<and> filter (\<lambda>c. stripe_session_id c = str sessionId) st = [c]
        \<and> status c \<noteq> Paid \<longrightarrow>
        reply (get_form w sessionId st) = SendFile ''already-submitted.html'')
   \<and> (\<not> falsy sessionId
        \<and> (select_error w \<or> filter (\<lambda>c. stripe_session_id c = str sessionId) st = []) \<longrightarrow>
        StripeRetrieve \<in> set (effects (get_form w sessionId st))
        \<and> (retrieve w (str sessionId) = None \<longrightarrow>
             reply (get_form w sessionId st) = Redirect ''/#services'')
        \<and> (\<forall>s. retrieve w (str sessionId) = Some s \<and> payment_status s \<noteq> ''paid'' \<longrightarrow>
             reply (get_form w sessionId st) = Redirect ''/#services'')
        \<and> (\<forall>s. retrieve w (str sessionId) = Some s \<and> payment_status s = ''paid'' \<longrightarrow>
             reply (get_form w sessionId st) = SendFile ''form.html''))
   \<and> (\<forall>n b. reply (get_form w sessionId st) \<noteq> Json n b)
   \<and> db (get_form w sessionId st) = st"
  by (auto simp: get_form_def select_single_def split: option.splits)

theorem C7_form_gate_witness:
  "reply (get_form ex_world None [ex_other]) = Redirect ''/#services''
   \<and> reply (get_form ex_world (Some ''cs_000'') [ex_other]) = SendFile ''already-submitted.html''
   \<and> reply (get_form ex_world (Some ''cs_unknown'') [ex_other]) = Redirect ''/#services''
   \<and> reply (get_form ex_world (Some ''cs_open'') [ex_other]) = Redirect ''/#services''
   \<and> reply (get_form ex_world (Some ''cs_123'') [ex_other]) = SendFile ''form.html''
   \<and> reply (get_form (ex_world \<lparr> select_error := True \<rparr>) (Some ''cs_open'') [ex_other])
       = Redirect ''/#services''"
  using C7_form_gate [of None ex_world "[ex_other]"]
    C7_form_gate [of "Some ''cs_000''" ex_world "[ex_other]" ex_other]
    C7_form_gate [of "Some ''cs_unknown''" ex_world "[ex_other]"]
    C7_form_gate [of "Some ''cs_open''" ex_world "[ex_other]"]
    C7_form_gate [of "Some ''cs_123''" ex_world "[ex_other]"]
    C7_form_gate [of "Some ''cs_open''" "ex_world \<lparr> select_error := True \<rparr>" "[ex_other]"]
  by (simp add: ex_defs str_def)

text \<open>
  Where the lookup fails, the gate does not see the row: the row of \<^verbatim>\<open>cs_123\<close> is
  already \<open>submitted\<close>, the store reports an error, the provider says the session is
  paid, and the form is served, not the "already submitted" page.
\<close>

theorem C7_form_served_for_submitted_row_counterexample:
  "status (ex_paid \<lparr> status := Submitted \<rparr>) \<noteq> Paid
   \<and> stripe_session_id (ex_paid \<lparr> status := Submitted \<rparr>) = ''cs_123''
   \<and> reply (get_form (ex_world \<lparr> select_error := True \<rparr>) (Some ''cs_123'')
        [ex_paid \<lparr> status := Submitted \<rparr>])
       = SendFile ''form.html''"
  by (simp add: get_form_def select_single_def ex_world_def ex_session_def ex_paid_def str_def)

subsection \<open>Submission\<close>

text \<open>
  C4, as the code has it. A submission whose session id matches one row of the table,
  with a status other than \<open>paid\<close>, never succeeds and leaves the table unchanged: the
  answer is an error with status 400, 403 or 500. When the store returns that row, the
  answer is 400 with a French message: "you have already submitted your question for
  this consultation" when the required fields are there, "required fields missing"
  otherwise. When the lookup fails and the required fields are there, the handler asks
  the provider instead and answers 403 or 500.
\<close>

theorem C4_double_submission_rejected:
  assumes found: "filter (\<lambda>c. stripe_session_id c = str (session_id_b b)) st = [c]"
    and left_paid: "status c \<noteq> Paid"
  shows "db (post_submit w b st) = st
    \<and> reply (post_submit w b st) \<noteq> Json 200 (SuccessBody True)
    \<and> (\<exists>n m. reply (post_submit w b st) = Json n (ErrorBody m) \<and> (n = 400 \<or> n = 403 \<or> n = 500))
    \<and> (\<not> select_error w \<longrightarrow>
         (\<exists>m. reply (post_submit w b st) = Json 400 (ErrorBody m))
         \<and> (\<not> (falsy (session_id_b b) \<or> falsy (name_b b) \<or> falsy (email_b b)
                 \<or> falsy (message_b b)) \<longrightarrow>
              reply (post_submit w b st) = Json 400 (ErrorBody
                (''Vous avez d'' @ [CHR 0xC3, CHR 0xA9] @ ''j'' @ [CHR 0xC3, CHR 0xA0]
                   @ '' soumis votre question pour cette consultation.''))
              \<and> effects (post_submit w b st) = [DbSelect]))
    \<and> (select_error w
         \<and> \<not> (falsy (session_id_b b) \<or> falsy (name_b b) \<or> falsy (email_b b)
                \<or> falsy (message_b b)) \<longrightarrow>
         (\<exists>n m. reply (post_submit w b st) = Json n (ErrorBody m) \<and> (n = 403 \<or> n = 500)))"
proof (cases "select_error w")
  case False
  then show ?thesis
    using assms by (simp add: post_submit_def select_single_def)
next
  case True
  have "c \<in> set (filter (\<lambda>c. stripe_session_id c = str (session_id_b b)) st)"
    using found by simp
  then have "c \<in> set st" "stripe_session_id c = str (session_id_b b)"
    by simp_all
  then have "str (session_id_b b) \<in> stripe_session_id ` set st"
    by (metis imageI)
  then have ins: "insert_row w (fallback_row w b s) st = None" for s
    by (simp add: insert_row_def fallback_row_def)
  have fb: "db (submit_fallback w b st) = st
      \<and> reply (submit_fallback w b st) \<noteq> Json 200 (SuccessBody True)
      \<and> (\<exists>n m. reply (submit_fallback w b st) = Json n (ErrorBody m) \<and> (n = 403 \<or> n = 500))"
    by (simp add: submit_fallback_def ins split: option.splits)
  show ?thesis
  proof (cases "falsy (session_id_b b) \<or> falsy (name_b b) \<or> falsy (email_b b)
      \<or> falsy (message_b b)")
    case missing: True
    then show ?thesis
      using True by (simp add: post_submit_def)
  next
    case False
    then have "post_submit w b st = submit_fallback w b st"
      using True by (simp add: post_submit_def select_single_def)
    then show ?thesis
      using fb True False by auto
  qed
qed

theorem C4_double_submission_rejected_witness:
  "db (post_submit ex_world (ex_submit \<lparr> session_id_b := Some ''cs_000'' \<rparr>) [ex_paid, ex_other])
     = [ex_paid, ex_other]
   \<and> reply (post_submit ex_world (ex_submit \<lparr> session_id_b := Some ''cs_000'' \<rparr>) [ex_paid, ex_other])
     = Json 400 (ErrorBody
           (''Vous avez d'' @ [CHR 0xC3, CHR 0xA9] @ ''j'' @ [CHR 0xC3, CHR 0xA0]
              @ '' soumis votre question pour cette consultation.''))
   \<and> db (post_submit (ex_world \<lparr> select_error := True \<rparr>)
           (ex_submit \<lparr> session_id_b := Some ''cs_000'' \<rparr>) [ex_paid, ex_other])
     = [ex_paid, ex_other]"
proof -
  have found: "filter (\<lambda>c. stripe_session_id c
        = str (session_id_b (ex_submit \<lparr> session_id_b := Some ''cs_000'' \<rparr>))) [ex_paid, ex_other]
      = [ex_other]"
    by (simp add: str_def ex_paid_simps ex_other_simps)
  have left_paid: "status ex_other \<noteq> Paid"
    by (simp add: ex_other_simps)
  show ?thesis
    using C4_double_submission_rejected [OF found left_paid, of ex_world]
      C4_double_submission_rejected [OF found left_paid, of "ex_world \<lparr> select_error := True \<rparr>"]
    by (simp add: ex_world_simps ex_submit_simps)
qed

text \<open>
  Where the lookup fails, the rejection is not a 400: the row of \<^verbatim>\<open>cs_123\<close> is already
  \<open>submitted\<close>, the store reports an error on the lookup, the provider says the session
  is paid, the insert is refused (the session id is taken), and the answer is 500.
\<close>

theorem C4_failed_lookup_answers_500_counterexample:
  "status (ex_paid \<lparr> status := Submitted \<rparr>) \<noteq> Paid
   \<and> filter (\<lambda>c. stripe_session_id c = str (session_id_b ex_submit))
        [ex_paid \<lparr> status := Submitted \<rparr>] = [ex_paid \<lparr> status := Submitted \<rparr>]
   \<and> reply (post_submit (ex_world \<lparr> select_error := True \<rparr>) ex_submit
        [ex_paid \<lparr> status := Submitted \<rparr>])
       = Json 500 (ErrorBody (''Erreur lors de l'' @ [CHR 0x27] @ ''enregistrement.''))"
  by (simp add: post_submit_def submit_fallback_def select_single_def insert_row_def
      fallback_row_def ex_world_def ex_session_def ex_paid_def ex_submit_def str_def)

text \<open>
  C5, as the code has it. A submission with its required fields, for a session id that
  has no row: the provider is asked. If the lookup throws or the session is not paid, the
  answer is 403 and no row is made. If it is paid and the store accepts the insert, the
  handler has inserted one row, in status \<open>submitted\<close>, with the name, email and message
  of the form, \<open>submitted_at\<close> the server's time, the amount \<open>amount_total / 100\<close>
  (zero when the provider gives no amount) and the label the webhook derives for that
  amount; no row of the session is ever in status \<open>paid\<close>. If the store refuses the
  insert, the answer is 500 and no row is made.
\<close>

theorem C5_submit_without_local_record:
  assumes fields: "\<not> falsy (session_id_b b)" "\<not> falsy (name_b b)" "\<not> falsy (email_b b)"
      "\<not> falsy (message_b b)"
    and absent: "filter (\<lambda>c. stripe_session_id c = str (session_id_b b)) st = []"
  shows "StripeRetrieve \<in> set (effects (post_submit w b st))
    \<and> (retrieve w (str (session_id_b b)) = None \<longrightarrow>
         reply (post_submit w b st) = Json 403 (ErrorBody ''Session de paiement invalide.'')
         \<and> db (post_submit w b st) = st)
    \<and> (\<forall>s. retrieve w (str (session_id_b b)) = Some s \<and> payment_status s \<noteq> ''paid'' \<longrightarrow>
         reply (post_submit w b st) = Json 403 (ErrorBody
            (''Paiement non v'' @ [CHR 0xC3, CHR 0xA9] @ ''rifi'' @ [CHR 0xC3, CHR 0xA9] @ ''.''))
         \<and> db (post_submit w b st) = st)
    \<and> (\<forall>s. retrieve w (str (session_id_b b)) = Some s \<and> payment_status s = ''paid'' \<longrightarrow>
         (if insert_error w \<or> uuid_generate_v4 w \<in> set (map id_c st)
          then reply (post_submit w b st) = Json 500 (ErrorBody
                  (''Erreur lors de l'' @ [CHR 0x27] @ ''enregistrement.''))
               \<and> db (post_submit w b st) = st
          else reply (post_submit w b st) = Json 200 (SuccessBody True)
               \<and> db (post_submit w b st) = st @ [fallback_row w b s]
               \<and> stripe_session_id (fallback_row w b s) = str (session_id_b b)
               \<and> status (fallback_row w b s) = Submitted
               \<and> name (fallback_row w b s) = name_b b
               \<and> email (fallback_row w b s) = email_b b
               \<and> message (fallback_row w b s) = message_b b
               \<and> submitted_at (fallback_row w b s) = Some (now w)
               \<and> amount (fallback_row w b s)
                   = (case amount_total s of None \<Rightarrow> 0 | Some n \<Rightarrow> of_int n / 100)
               \<and> service (fallback_row w b s)
                   = (if 1000 \<le> (case amount_total s of None \<Rightarrow> 0 | Some n \<Rightarrow> n)
                      then ''Consultation Ressenti''
                      else ''R'' @ [CHR 0xC3, CHR 0xA9] @ ''ponse Oui / Non'')
               \<and> service (fallback_row w b s) = service (webhook_row w s)
               \<and> (\<forall>r \<in> set (db (post_submit w b st)).
                     stripe_session_id r = str (session_id_b b) \<longrightarrow> status r = Submitted)))"
proof -
  have sel: "select_single w (\<lambda>c. stripe_session_id c = str (session_id_b b)) st = None"
    using absent by (simp add: select_single_def)
  have fb: "post_submit w b st = submit_fallback w b st"
    using fields sel by (simp add: post_submit_def)
  have nosid: "\<forall>r \<in> set st. stripe_session_id r \<noteq> str (session_id_b b)"
    using absent by (simp add: filter_empty_conv)
  then have nosid': "str (session_id_b b) \<notin> stripe_session_id ` set st"
    by auto
  have row: "stripe_session_id (fallback_row w b s) = str (session_id_b b)"
      "status (fallback_row w b s) = Submitted"
      "name (fallback_row w b s) = name_b b"
      "email (fallback_row w b s) = email_b b"
      "message (fallback_row w b s) = message_b b"
      "submitted_at (fallback_row w b s) = Some (now w)"
      "amount (fallback_row w b s)
                   = (case amount_total s of None \<Rightarrow> 0 | Some n \<Rightarrow> of_int n / 100)"
      "service (fallback_row w b s)
                   = (if 1000 \<le> (case amount_total s of None \<Rightarrow> 0 | Some n \<Rightarrow> n)
                      then ''Consultation Ressenti''
                      else ''R'' @ [CHR 0xC3, CHR 0xA9] @ ''ponse Oui / Non'')"
      "service (webhook_row w s)
                   = (if 1000 \<le> (case amount_total s of None \<Rightarrow> 0 | Some n \<Rightarrow> n)
                      then ''Consultation Ressenti''
                      else ''R'' @ [CHR 0xC3, CHR 0xA9] @ ''ponse Oui / Non'')"
      "id_c (fallback_row w b s) = uuid_generate_v4 w" for s
    by (simp_all add: fallback_row_def webhook_row_def submit_service_def webhook_service_def
        nullish0_def split: option.splits)
  have ins: "insert_row w (fallback_row w b s) st =
      (if insert_error w \<or> uuid_generate_v4 w \<in> set (map id_c st) then None
       else Some (st @ [fallback_row w b s]))" for s
    using nosid' by (simp add: insert_row_def row)
  have 1: "StripeRetrieve \<in> set (effects (submit_fallback w b st))"
    by (simp add: submit_fallback_def ins split: option.splits)
  have 2: "retrieve w (str (session_id_b b)) = None \<longrightarrow>
      reply (submit_fallback w b st) = Json 403 (ErrorBody ''Session de paiement invalide.'')
      \<and> db (submit_fallback w b st) = st"
    by (simp add: submit_fallback_def)
  have 3: "retrieve w (str (session_id_b b)) = Some s \<Longrightarrow> payment_status s \<noteq> ''paid'' \<Longrightarrow>
      reply (submit_fallback w b st) = Json 403 (ErrorBody
            (''Paiement non v'' @ [CHR 0xC3, CHR 0xA9] @ ''rifi'' @ [CHR 0xC3, CHR 0xA9] @ ''.''))
      \<and> db (submit_fallback w b st) = st" for s
    by (simp add: submit_fallback_def)
  have 4: "retrieve w (str (session_id_b b)) = Some s \<Longrightarrow> payment_status s = ''paid'' \<Longrightarrow>
      insert_error w \<or> uuid_generate_v4 w \<in> set (map id_c st) \<Longrightarrow>
      reply (submit_fallback w b st) = Json 500 (ErrorBody
                  (''Erreur lors de l'' @ [CHR 0x27] @ ''enregistrement.''))
      \<and> db (submit_fallback w b st) = st" for s
    by (simp add: submit_fallback_def ins)
  have 5: "retrieve w (str (session_id_b b)) = Some s \<Longrightarrow> payment_status s = ''paid'' \<Longrightarrow>
      \<not> (insert_error w \<or> uuid_generate_v4 w \<in> set (map id_c st)) \<Longrightarrow>
      reply (submit_fallback w b st) = Json 200 (SuccessBody True)
      \<and> db (submit_fallback w b st) = st @ [fallback_row w b s]" for s
    by (simp add: submit_fallback_def ins)
  have 6: "\<forall>r \<in> set (st @ [fallback_row w b s]).
      stripe_session_id r = str (session_id_b b) \<longrightarrow> status r = Submitted" for s
    using nosid by (simp add: row)
  have 7: "retrieve w (str (session_id_b b)) = Some s \<and> payment_status s = ''paid'' \<longrightarrow>
         (if insert_error w \<or> uuid_generate_v4 w \<in> set (map id_c st)
          then reply (submit_fallback w b st) = Json 500 (ErrorBody
                  (''Erreur lors de l'' @ [CHR 0x27] @ ''enregistrement.''))
               \<and> db (submit_fallback w b st) = st
          else reply (submit_fallback w b st) = Json 200 (SuccessBody True)
               \<and> db (submit_fallback w b st) = st @ [fallback_row w b s]
               \<and> stripe_session_id (fallback_row w b s) = str (session_id_b b)
               \<and> status (fallback_row w b s) = Submitted
               \<and> name (fallback_row w b s) = name_b b
               \<and> email (fallback_row w b s) = email_b b
               \<and> message (fallback_row w b s) = message_b b
               \<and> submitted_at (fallback_row w b s) = Some (now w)
               \<and> amount (fallback_row w b s)
                   = (case amount_total s of None \<Rightarrow> 0 | Some n \<Rightarrow> of_int n / 100)
               \<and> service (fallback_row w b s)
                   = (if 1000 \<le> (case amount_total s of None \<Rightarrow> 0 | Some n \<Rightarrow> n)
                      then ''Consultation Ressenti''
                      else ''R'' @ [CHR 0xC3, CHR 0xA9] @ ''ponse Oui / Non'')
               \<and> service (fallback_row w b s) = service (webhook_row w s)
               \<and> (\<forall>r \<in> set (db (submit_fallback w b st)).
                     stripe_session_id r = str (session_id_b b) \<longrightarrow> status r = Submitted))" for s
  proof (cases "insert_error w \<or> uuid_generate_v4 w \<in> set (map id_c st)")
    case True
    then show ?thesis using 4 [of s] by simp
  next
    case False
    then show ?thesis using 5 [of s] 6 [of s] by (simp add: row)
  qed
  show ?thesis
    unfolding fb using 1 2 3 7 by blast
qed

theorem C5_submit_without_local_record_witness:
  "reply (post_submit ex_world (ex_submit \<lparr> session_id_b := Some ''cs_unknown'' \<rparr>) [ex_other])
     = Json 403 (ErrorBody ''Session de paiement invalide.'')
   \<and> db (post_submit ex_world (ex_submit \<lparr> session_id_b := Some ''cs_unknown'' \<rparr>) [ex_other])
     = [ex_other]
   \<and> reply (post_submit ex_world (ex_submit \<lparr> session_id_b := Some ''cs_open'' \<rparr>) [ex_other])
     = Json 403 (ErrorBody
         (''Paiement non v'' @ [CHR 0xC3, CHR 0xA9] @ ''rifi'' @ [CHR 0xC3, CHR 0xA9] @ ''.''))
   \<and> db (post_submit ex_world (ex_submit \<lparr> session_id_b := Some ''cs_open'' \<rparr>) [ex_other])
     = [ex_other]
   \<and> reply (post_submit ex_world ex_submit [ex_other]) = Json 200 (SuccessBody True)
   \<and> db (post_submit ex_world ex_submit [ex_other])
     = [ex_other, fallback_row ex_world ex_submit ex_session]
   \<and> status (fallback_row ex_world ex_submit ex_session) = Submitted
   \<and> amount (fallback_row ex_world ex_submit ex_session) = 15
   \<and> service (fallback_row ex_world ex_submit ex_session) = ''Consultation Ressenti''
   \<and> amount (fallback_row (ex_world \<lparr> retrieve := \<lambda>sid. Some (ex_session \<lparr> amount_total := Some 999 \<rparr>) \<rparr>)
         ex_submit (ex_session \<lparr> amount_total := Some 999 \<rparr>)) = 999 / 100
   \<and> service (fallback_row (ex_world \<lparr> retrieve := \<lambda>sid. Some (ex_session \<lparr> amount_total := Some 999 \<rparr>) \<rparr>)
         ex_submit (ex_session \<lparr> amount_total := Some 999 \<rparr>))
       = ''R'' @ [CHR 0xC3, CHR 0xA9] @ ''ponse Oui / Non''
   \<and> amount (fallback_row (ex_world \<lparr> retrieve := \<lambda>sid. Some (ex_session \<lparr> amount_total := None \<rparr>) \<rparr>)
         ex_submit (ex_session \<lparr> amount_total := None \<rparr>)) = 0"
proof -
  have fields: "\<not> falsy (session_id_b (ex_submit \<lparr> session_id_b := Some sid \<rparr>))"
      "\<not> falsy (name_b (ex_submit \<lparr> session_id_b := Some sid \<rparr>))"
      "\<not> falsy (email_b (ex_submit \<lparr> session_id_b := Some sid \<rparr>))"
      "\<not> falsy (message_b (ex_submit \<lparr> session_id_b := Some sid \<rparr>))" if "sid \<noteq> []" for sid
    using that by (simp_all add: ex_submit_simps)
  have absent: "filter (\<lambda>c. stripe_session_id c
        = str (session_id_b (ex_submit \<lparr> session_id_b := Some sid \<rparr>))) [ex_other] = []"
    if "sid \<noteq> ''cs_000''" for sid
    using that by (auto simp add: ex_other_simps str_def)
  have same: "ex_submit \<lparr> session_id_b := Some ''cs_123'' \<rparr> = ex_submit"
    by (simp add: ex_submit_def)
  have a: "reply (post_submit ex_world (ex_submit \<lparr> session_id_b := Some ''cs_unknown'' \<rparr>) [ex_other])
     = Json 403 (ErrorBody ''Session de paiement invalide.'')
   \<and> db (post_submit ex_world (ex_submit \<lparr> session_id_b := Some ''cs_unknown'' \<rparr>) [ex_other])
     = [ex_other]"
    using C5_submit_without_local_record [OF fields absent, of "''cs_unknown''" ex_world]
    by (simp add: str_def ex_world_simps)
  have b: "reply (post_submit ex_world (ex_submit \<lparr> session_id_b := Some ''cs_open'' \<rparr>) [ex_other])
     = Json 403 (ErrorBody
         (''Paiement non v'' @ [CHR 0xC3, CHR 0xA9] @ ''rifi'' @ [CHR 0xC3, CHR 0xA9] @ ''.''))
   \<and> db (post_submit ex_world (ex_submit \<lparr> session_id_b := Some ''cs_open'' \<rparr>) [ex_other])
     = [ex_other]"
    using C5_submit_without_local_record [OF fields absent, of "''cs_open''" ex_world]
    by (simp add: str_def ex_world_simps)
  have c: "reply (post_submit ex_world ex_submit [ex_other]) = Json 200 (SuccessBody True)
   \<and> db (post_submit ex_world ex_submit [ex_other])
     = [ex_other, fallback_row ex_world ex_submit ex_session]
   \<and> status (fallback_row ex_world ex_submit ex_session) = Submitted
   \<and> amount (fallback_row ex_world ex_submit ex_session) = 15
   \<and> service (fallback_row ex_world ex_submit ex_session) = ''Consultation Ressenti''"
    using C5_submit_without_local_record [OF fields absent, of "''cs_123''" ex_world]
    by (simp add: same str_def ex_world_simps ex_session_simps ex_other_simps ex_submit_simps)
  let ?w = "\<lambda>a. ex_world \<lparr> retrieve := \<lambda>sid. Some (ex_session \<lparr> amount_total := a \<rparr>) \<rparr>"
  have d: "amount (fallback_row (?w (Some 999)) ex_submit (ex_session \<lparr> amount_total := Some 999 \<rparr>))
       = 999 / 100
   \<and> service (fallback_row (?w (Some 999)) ex_submit (ex_session \<lparr> amount_total := Some 999 \<rparr>))
       = ''R'' @ [CHR 0xC3, CHR 0xA9] @ ''ponse Oui / Non''"
    using C5_submit_without_local_record [OF fields absent, of "''cs_123''" "?w (Some 999)"]
    by (simp add: same str_def ex_world_simps ex_session_simps ex_other_simps ex_submit_simps)
  have e: "amount (fallback_row (?w None) ex_submit (ex_session \<lparr> amount_total := None \<rparr>)) = 0"
    using C5_submit_without_local_record [OF fields absent, of "''cs_123''" "?w None"]
    by (simp add: same str_def ex_world_simps ex_session_simps ex_other_simps ex_submit_simps)
  from a b c d e show ?thesis by simp
qed

text \<open>
  Where the store refuses the insert, a paid session without a row gets none: the
  session \<^verbatim>\<open>cs_123\<close> is paid and has no row, the insert fails, no row is made, and the
  answer is 500.
\<close>

theorem C5_insert_refused_no_row_counterexample:
  "filter (\<lambda>c. stripe_session_id c = str (session_id_b ex_submit)) [ex_other] = []
   \<and> map_option payment_status (retrieve ex_world (str (session_id_b ex_submit)))
       = Some ''paid''
   \<and> db (post_submit (ex_world \<lparr> insert_error := True \<rparr>) ex_submit [ex_other]) = [ex_other]
   \<and> reply (post_submit (ex_world \<lparr> insert_error := True \<rparr>) ex_submit [ex_other])
       = Json 500 (ErrorBody (''Erreur lors de l'' @ [CHR 0x27] @ ''enregistrement.''))"
  by (simp add: post_submit_def submit_fallback_def select_single_def insert_row_def
      fallback_row_def ex_world_def ex_session_def ex_paid_def ex_other_def ex_submit_def str_def)

text \<open>
  C10. A submission with its required fields, for a session whose one row the store
  returns in status \<open>paid\<close>: the table keeps its length and order; every row is the old
  row with at most \<open>status\<close>, \<open>name\<close>, \<open>email\<close>, \<open>birthdate\<close>, \<open>person_concerned\<close>,
  \<open>message\<close> and \<open>submitted_at\<close> overwritten, so \<open>id\<close>, \<open>stripe_session_id\<close>,
  \<open>service\<close>, \<open>amount\<close>, \<open>customer_email\<close>, \<open>response\<close>, \<open>answered_at\<close> and
  \<open>created_at\<close> are as before; and a row of another session is unchanged altogether.
  When the store accepts the update the row of the session gets the seven fields of the
  form; when it reports an error the answer is 500 and nothing changed.
\<close>

theorem C10_submit_update_frame:
  assumes fields: "\<not> falsy (session_id_b b)" "\<not> falsy (name_b b)" "\<not> falsy (email_b b)"
      "\<not> falsy (message_b b)"
    and found: "\<not> select_error w"
      "filter (\<lambda>c. stripe_session_id c = str (session_id_b b)) st = [c]"
    and paid: "status c = Paid"
  shows "length (db (post_submit w b st)) = length st
    \<and> (\<forall>i<length st.
          (stripe_session_id (st ! i) \<noteq> str (session_id_b b) \<longrightarrow>
             db (post_submit w b st) ! i = st ! i)
        \<and> db (post_submit w b st) ! i
            = (st ! i) \<lparr> status := status (db (post_submit w b st) ! i),
                         name := name (db (post_submit w b st) ! i),
                         email := email (db (post_submit w b st) ! i),
                         birthdate := birthdate (db (post_submit w b st) ! i),
                         person_concerned := person_concerned (db (post_submit w b st) ! i),
                         message := message (db (post_submit w b st) ! i),
                         submitted_at := submitted_at (db (post_submit w b st) ! i) \<rparr>
        \<and> id_c (db (post_submit w b st) ! i) = id_c (st ! i)
        \<and> stripe_session_id (db (post_submit w b st) ! i) = stripe_session_id (st ! i)
        \<and> service (db (post_submit w b st) ! i) = service (st ! i)
        \<and> amount (db (post_submit w b st) ! i) = amount (st ! i)
        \<and> customer_email (db (post_submit w b st) ! i) = customer_email (st ! i)
        \<and> response (db (post_submit w b st) ! i) = response (st ! i)
        \<and> answered_at (db (post_submit w b st) ! i) = answered_at (st ! i)
        \<and> created_at (db (post_submit w b st) ! i) = created_at (st ! i))
    \<and> (\<not> update_error w \<longrightarrow>
          reply (post_submit w b st) = Json 200 (SuccessBody True)
          \<and> db (post_submit w b st)
              = map (\<lambda>r. if stripe_session_id r = str (session_id_b b)
                          then r \<lparr> status := Submitted, name := name_b b, email := email_b b,
                                   birthdate := or_null (birthdate_b b),
                                   person_concerned := or_null (person_concerned_b b),
                                   message := message_b b, submitted_at := Some (now w) \<rparr>
                          else r) st)
    \<and> (update_error w \<longrightarrow>
          reply (post_submit w b st) = Json 500 (ErrorBody
             (''Erreur lors de l'' @ [CHR 0x27] @ ''enregistrement.''))
          \<and> db (post_submit w b st) = st)"
proof -
  have sel: "select_single w (\<lambda>c. stripe_session_id c = str (session_id_b b)) st = Some c"
    using found by (simp add: select_single_def)
  show ?thesis
  proof (cases "update_error w")
    case True
    then show ?thesis
      using fields sel paid by (simp add: post_submit_def update_rows_def)
  next
    case False
    then show ?thesis
      using fields sel paid
      by (simp add: post_submit_def update_rows_def submit_update_def)
  qed
qed

theorem C10_submit_update_frame_witness:
  "db (post_submit ex_world ex_submit [ex_other, ex_paid])
     = [ex_other,
        ex_paid \<lparr> status := Submitted, name := Some ''Ann'', email := Some ''ann@example.org'',
                  birthdate := None, person_concerned := None,
                  message := Some ''Ma question'',
                  submitted_at := Some ''2026-01-01T00:00:00.000Z'' \<rparr>]
   \<and> reply (post_submit ex_world ex_submit [ex_other, ex_paid]) = Json 200 (SuccessBody True)
   \<and> amount (db (post_submit ex_world ex_submit [ex_other, ex_paid]) ! 1) = 15
   \<and> id_c (db (post_submit ex_world ex_submit [ex_other, ex_paid]) ! 1) = 0xa1"
proof -
  have fields: "\<not> falsy (session_id_b ex_submit)" "\<not> falsy (name_b ex_submit)"
      "\<not> falsy (email_b ex_submit)" "\<not> falsy (message_b ex_submit)"
    by (simp_all add: ex_submit_simps)
  have found: "\<not> select_error ex_world"
      "filter (\<lambda>c. stripe_session_id c = str (session_id_b ex_submit)) [ex_other, ex_paid] = [ex_paid]"
    by (simp_all add: ex_world_simps ex_submit_simps str_def ex_other_simps ex_paid_simps)
  have paid: "status ex_paid = Paid"
    by (simp add: ex_paid_simps)
  show ?thesis
    using C10_submit_update_frame [OF fields found paid]
    by (simp add: ex_world_simps ex_submit_simps str_def ex_other_simps ex_paid_simps or_null_def)
qed

subsection \<open>The status of a row\<close>

text \<open>
  What a row returned by \<^verbatim>\<open>.single()\<close> says about the table, and what the fallback
  branch of the submission leaves in it.
\<close>

lemma filter_single_nth:
  assumes "filter p xs = [c]" "i < length xs" "p (xs ! i)"
  shows "xs ! i = c"
proof -
  have "xs ! i \<in> set (filter p xs)"
    using assms(2,3) by simp
  then show ?thesis
    using assms(1) by simp
qed

lemma single_Some: "single xs = Some c \<longleftrightarrow> xs = [c]"
  by (cases xs rule: single.cases) auto

lemma select_single_Some:
  "select_single w p st = Some c \<Longrightarrow> filter p st = [c]"
  by (simp add: select_single_def single_Some split: if_splits)

lemma submit_fallback_db:
  "db (submit_fallback w b st) = st
   \<or> (\<exists>s. db (submit_fallback w b st) = st @ [fallback_row w b s])"
  by (auto simp: submit_fallback_def insert_row_def split: option.splits)

lemma rank_le_2: "rank s \<le> 2"
  by (cases s) simp_all

text \<open>
  C1, as the code has it. Under the webhook, the submission and the admin's response, no
  row's status goes back: every row of the table is still there, at its place, under its
  \<open>id\<close>, with a status of equal or higher rank. The webhook changes no status and adds at
  most a row in \<open>paid\<close>; the submission changes a status only from \<open>paid\<close> to
  \<open>submitted\<close> and adds at most a row in \<open>submitted\<close>; the response changes a status
  only to \<open>answered\<close>, from whatever it was, and adds no row.
\<close>

theorem C1_status_never_regresses:
  "length st \<le> length (apply_operation w op st)
   \<and> (\<forall>i<length st.
         id_c (apply_operation w op st ! i) = id_c (st ! i)
       \<and> rank (status (st ! i)) \<le> rank (status (apply_operation w op st ! i))
       \<and> (status (apply_operation w op st ! i) \<noteq> status (st ! i) \<longrightarrow>
            (case op of
               Webhook sig raw \<Rightarrow> False
             | Submit b \<Rightarrow> status (st ! i) = Paid
                   \<and> status (apply_operation w op st ! i) = Submitted
             | Respond b \<Rightarrow> status (apply_operation w op st ! i) = Answered)))
   \<and> (\<forall>i. length st \<le> i \<and> i < length (apply_operation w op st) \<longrightarrow>
         (case op of
            Webhook sig raw \<Rightarrow> status (apply_operation w op st ! i) = Paid
          | Submit b \<Rightarrow> status (apply_operation w op st ! i) = Submitted
          | Respond b \<Rightarrow> False))"
proof (cases op)
  case (Webhook sig raw)
  have "db (webhookHandler w sig raw st) = st
      \<or> (\<exists>s. db (webhookHandler w sig raw st) = st @ [webhook_row w s])"
    by (auto simp: webhookHandler_def insert_row_def split: sum.splits)
  then show ?thesis
  proof
    assume "db (webhookHandler w sig raw st) = st"
    then show ?thesis using Webhook by auto
  next
    assume "\<exists>s. db (webhookHandler w sig raw st) = st @ [webhook_row w s]"
    then obtain s where "db (webhookHandler w sig raw st) = st @ [webhook_row w s]" ..
    then show ?thesis
      using Webhook by (auto simp: nth_append webhook_row_def less_Suc_eq)
  qed
next
  case (Submit b)
  let ?p = "\<lambda>c. stripe_session_id c = str (session_id_b b)"
  have "db (post_submit w b st) = st
      \<or> (\<exists>s. db (post_submit w b st) = st @ [fallback_row w b s])
      \<or> (\<exists>c. filter ?p st = [c] \<and> status c = Paid
            \<and> db (post_submit w b st) = map (\<lambda>r. if ?p r then submit_update w b r else r) st)"
  proof (cases "select_single w ?p st")
    case None
    then show ?thesis
      using submit_fallback_db [of w b st] by (auto simp: post_submit_def)
  next
    case (Some c)
    then have "filter ?p st = [c]"
      by (rule select_single_Some)
    then show ?thesis
      using Some by (auto simp: post_submit_def update_rows_def)
  qed
  then consider (same) "db (post_submit w b st) = st"
    | (new) s where "db (post_submit w b st) = st @ [fallback_row w b s]"
    | (upd) c where "filter ?p st = [c]" "status c = Paid"
        "db (post_submit w b st) = map (\<lambda>r. if ?p r then submit_update w b r else r) st"
    by blast
  then show ?thesis
  proof cases
    case same
    then show ?thesis using Submit by auto
  next
    case new
    then show ?thesis
      using Submit by (auto simp: nth_append fallback_row_def less_Suc_eq)
  next
    case upd
    have "status (st ! i) = Paid" if "i < length st" "?p (st ! i)" for i
      using filter_single_nth [OF upd(1) that] upd(2) by simp
    then show ?thesis
      using Submit upd(3) by (auto simp: submit_update_def)
  qed
next
  case (Respond b)
  have "db (post_admin_respond w b st) = st
      \<or> (\<exists>u. db (post_admin_respond w b st)
          = map (\<lambda>r. if id_c r = u then respond_update w b r else r) st)"
    by (auto simp: post_admin_respond_def update_rows_id_def update_rows_def Let_def
        split: option.splits)
  then show ?thesis
  proof
    assume "db (post_admin_respond w b st) = st"
    then show ?thesis using Respond by auto
  next
    assume "\<exists>u. db (post_admin_respond w b st)
          = map (\<lambda>r. if id_c r = u then respond_update w b r else r) st"
    then obtain u where "db (post_admin_respond w b st)
          = map (\<lambda>r. if id_c r = u then respond_update w b r else r) st" ..
    then show ?thesis
      using Respond by (auto simp: respond_update_def rank_le_2)
  qed
qed

theorem C1_status_never_regresses_witness:
  "status ex_paid = Paid
   \<and> status (apply_operation ex_world (Submit ex_submit) [ex_other, ex_paid] ! 1) = Submitted
   \<and> rank (status ex_paid)
        \<le> rank (status (apply_operation ex_world (Submit ex_submit) [ex_other, ex_paid] ! 1))
   \<and> status ex_other = Submitted
   \<and> status (apply_operation ex_world (Respond ex_respond) [ex_other, ex_paid] ! 0) = Answered
   \<and> rank (status ex_other)
        \<le> rank (status (apply_operation ex_world (Respond ex_respond) [ex_other, ex_paid] ! 0))
   \<and> status (apply_operation ex_world
         (Webhook (Some ''sig_ok'') ''checkout.session.completed'') [ex_other] ! 1) = Paid"
proof -
  have sub: "apply_operation ex_world (Submit ex_submit) [ex_other, ex_paid]
      = [ex_other, submit_update ex_world ex_submit ex_paid]"
    by (simp add: post_submit_def select_single_def update_rows_def ex_world_simps
        ex_submit_simps ex_other_simps ex_paid_simps str_def)
  have res: "apply_operation ex_world (Respond ex_respond) [ex_other, ex_paid]
      = [respond_update ex_world ex_respond ex_other, ex_paid]"
    by (simp add: post_admin_respond_def select_single_id_def update_rows_id_def
        select_single_def update_rows_def ex_world_simps ex_uuid_simps
        ex_respond_def ex_other_simps ex_paid_simps str_def Let_def)
  have web: "apply_operation ex_world
         (Webhook (Some ''sig_ok'') ''checkout.session.completed'') [ex_other]
      = [ex_other, webhook_row ex_world ex_session]"
    by (simp add: webhookHandler_def insert_row_def ex_world_simps ex_other_simps str_def
        webhook_row_def ex_session_simps)
  have len: "1 < length [ex_other, ex_paid]" "0 < length [ex_other, ex_paid]"
    by simp_all
  have a: "rank (status ([ex_other, ex_paid] ! 1))
        \<le> rank (status (apply_operation ex_world (Submit ex_submit) [ex_other, ex_paid] ! 1))"
    using C1_status_never_regresses [of "[ex_other, ex_paid]" ex_world "Submit ex_submit"] len(1)
    by blast
  have b: "rank (status ([ex_other, ex_paid] ! 0))
        \<le> rank (status (apply_operation ex_world (Respond ex_respond) [ex_other, ex_paid] ! 0))"
    using C1_status_never_regresses [of "[ex_other, ex_paid]" ex_world "Respond ex_respond"] len(2)
    by blast
  have "length [ex_other] \<le> 1
      \<and> 1 < length (apply_operation ex_world
         (Webhook (Some ''sig_ok'') ''checkout.session.completed'') [ex_other])"
    unfolding web by simp
  then have "case Webhook (Some ''sig_ok'') ''checkout.session.completed'' of
        Webhook sig raw \<Rightarrow> status (apply_operation ex_world
          (Webhook (Some ''sig_ok'') ''checkout.session.completed'') [ex_other] ! 1) = Paid
      | Submit b \<Rightarrow> status (apply_operation ex_world
          (Webhook (Some ''sig_ok'') ''checkout.session.completed'') [ex_other] ! 1) = Submitted
      | Respond b \<Rightarrow> False"
    using C1_status_never_regresses [of "[ex_other]" ex_world
        "Webhook (Some ''sig_ok'') ''checkout.session.completed''"]
    by blast
  then have c: "status (apply_operation ex_world
         (Webhook (Some ''sig_ok'') ''checkout.session.completed'') [ex_other] ! 1) = Paid"
    by (simp only: operation.case)
  have d: "status ex_paid = Paid" "status ex_other = Submitted"
    by (simp_all add: ex_other_simps ex_paid_simps)
  have e: "status (apply_operation ex_world (Submit ex_submit) [ex_other, ex_paid] ! 1) = Submitted"
    unfolding sub by (simp add: submit_update_def)
  have f: "status (apply_operation ex_world (Respond ex_respond) [ex_other, ex_paid] ! 0) = Answered"
    unfolding res by (simp add: respond_update_def)
  have a': "rank (status ex_paid)
        \<le> rank (status (apply_operation ex_world (Submit ex_submit) [ex_other, ex_paid] ! 1))"
    using a by (simp only: nth_Cons_0 nth_Cons_Suc One_nat_def)
  have b': "rank (status ex_other)
        \<le> rank (status (apply_operation ex_world (Respond ex_respond) [ex_other, ex_paid] ! 0))"
    using b by (simp only: nth_Cons_0)
  from a' b' c d e f show ?thesis
    by blast
qed

text \<open>
  The response handler does not look at the status of the row it answers: a row in
  \<open>paid\<close> becomes \<open>answered\<close> in one step, without having been \<open>submitted\<close>.
\<close>

theorem C1_respond_skips_submitted_counterexample:
  "status ex_paid = Paid
   \<and> status (apply_operation ex_world
         (Respond (ex_respond \<lparr> id_b := Some ''00000000-0000-0000-0000-0000000000a1'' \<rparr>))
         [ex_paid] ! 0)
       = Answered"
  by (simp add: post_admin_respond_def select_single_id_def update_rows_id_def
      select_single_def update_rows_def respond_update_def
      ex_world_simps ex_uuid_simps ex_respond_def ex_paid_simps str_def Let_def)

subsection \<open>The admin's response\<close>

text \<open>
  What holds of the respond handler, for a response with its id and text and the one row
  the store returns under that id. If the store reports an error on the update, the
  answer is 500, the table is unchanged and no mail is attempted. Otherwise the row has
  \<open>status = answered\<close>, the response text and \<open>answered_at\<close>, the update comes before the
  mail in the handler's calls, and the table does not depend on what the mailer does. The
  answer is 200 with \<^verbatim>\<open>success: true\<close>, and \<^verbatim>\<open>emailSent\<close> is false exactly when the send
  threw.
\<close>

lemma respond_update_then_email:
  assumes fields: "\<not> falsy (id_b b)" "\<not> falsy (response_b b)"
    and found: "\<not> select_error w" "uuid_in (str (id_b b)) = Some u"
      "filter (\<lambda>c. id_c c = u) st = [c]"
  shows "(update_error w \<longrightarrow>
            reply (post_admin_respond w b st) = Json 500 (ErrorBody
               (''Erreur lors de la mise '' @ [CHR 0xC3, CHR 0xA0] @ '' jour.''))
            \<and> db (post_admin_respond w b st) = st
            \<and> (\<forall>to outcome. EmailSend to outcome \<notin> set (effects (post_admin_respond w b st))))
    \<and> (\<not> update_error w \<longrightarrow>
            db (post_admin_respond w b st)
              = map (\<lambda>r. if id_c r = u
                          then r \<lparr> status := Answered, response := response_b b,
                                   answered_at := Some (now w) \<rparr>
                          else r) st
            \<and> effects (post_admin_respond w b st)
                = [DbSelect, DbUpdate False, EmailSend (email c) (emails_send w),
                   if emails_send w = Threw then ConsoleError else ConsoleLog]
            \<and> reply (post_admin_respond w b st)
                = Json 200 (RespondResult True (emails_send w \<noteq> Threw)
                    (respond_message (emails_send w \<noteq> Threw)))
            \<and> db (post_admin_respond (w \<lparr> emails_send := outcome \<rparr>) b st)
                = db (post_admin_respond w b st))"
  using assms
  by (simp add: post_admin_respond_def select_single_id_def update_rows_id_def
      select_single_def update_rows_def respond_update_def Let_def)

text \<open>
  C3. A send that fails without throwing is reported as sent. The response to the
  submitted row \<^verbatim>\<open>a0\<close>, with a mailer that resolves to \<^verbatim>\<open>{data: null, error}\<close>: the
  update is made, the mail to \<^verbatim>\<open>bob@example.org\<close> is refused, and the handler answers
  \<^verbatim>\<open>success: true, emailSent: true\<close> with the message "response saved and email sent",
  and logs the delivery, where a failed send should give \<^verbatim>\<open>emailSent: false\<close>. With a
  mailer that throws, the same response gets \<^verbatim>\<open>emailSent: false\<close>.
\<close>

theorem C3_refused_email_reported_as_sent:
  "db (post_admin_respond (ex_world \<lparr> emails_send := ReturnedError \<rparr>) ex_respond [ex_other, ex_paid])
     = [ex_other \<lparr> status := Answered, response := Some ''Voici ma guidance'',
                    answered_at := Some ''2026-01-01T00:00:00.000Z'' \<rparr>, ex_paid]
   \<and> effects (post_admin_respond (ex_world \<lparr> emails_send := ReturnedError \<rparr>) ex_respond
        [ex_other, ex_paid])
     = [DbSelect, DbUpdate False, EmailSend (Some ''bob@example.org'') ReturnedError, ConsoleLog]
   \<and> reply (post_admin_respond (ex_world \<lparr> emails_send := ReturnedError \<rparr>) ex_respond
        [ex_other, ex_paid])
     = Json 200 (RespondResult True True (respond_message True))
   \<and> reply (post_admin_respond ex_world ex_respond [ex_other, ex_paid])
     = Json 200 (RespondResult True False (respond_message False))"
  by (simp add: post_admin_respond_def select_single_id_def update_rows_id_def
      select_single_def update_rows_def respond_update_def Let_def
      ex_world_simps ex_uuid_simps ex_respond_def ex_other_def ex_paid_def str_def)

subsection \<open>Deletion\<close>

text \<open>
  C9, as the code has it. Deleting by id leaves every row with another id as it was, in
  place and in order, whatever the id and whatever the store answers. The handler always
  answers, with 200 and \<^verbatim>\<open>success: true\<close> or with 500. An id that the store cannot read as
  a \<^verbatim>\<open>UUID\<close> is answered with 500 and nothing is deleted. An id that is a \<^verbatim>\<open>UUID\<close>, when
  the store reports no error, is answered with the 200, and the rows with that id are
  gone; when no row has it, the table is unchanged.
\<close>

theorem C9_delete_frame:
  "filter (\<lambda>c. uuid_in i \<noteq> Some (id_c c)) (db (delete_admin_consultation w i st))
     = filter (\<lambda>c. uuid_in i \<noteq> Some (id_c c)) st
   \<and> (reply (delete_admin_consultation w i st) = Json 200 (SuccessBody True)
        \<or> reply (delete_admin_consultation w i st)
            = Json 500 (ErrorBody ''Erreur lors de la suppression.''))
   \<and> (uuid_in i = None \<longrightarrow>
         reply (delete_admin_consultation w i st)
           = Json 500 (ErrorBody ''Erreur lors de la suppression.'')
         \<and> db (delete_admin_consultation w i st) = st)
   \<and> (\<forall>u. uuid_in i = Some u \<and> \<not> delete_error w \<longrightarrow>
         reply (delete_admin_consultation w i st) = Json 200 (SuccessBody True)
         \<and> db (delete_admin_consultation w i st) = filter (\<lambda>c. id_c c \<noteq> u) st
         \<and> (u \<notin> set (map id_c st) \<longrightarrow> db (delete_admin_consultation w i st) = st))
   \<and> (delete_error w \<longrightarrow>
         reply (delete_admin_consultation w i st)
           = Json 500 (ErrorBody ''Erreur lors de la suppression.'')
         \<and> db (delete_admin_consultation w i st) = st)"
proof -
  have same: "u \<notin> set (map id_c st) \<Longrightarrow> filter (\<lambda>c. id_c c \<noteq> u) st = st" for u
    by (induction st) auto
  show ?thesis
  proof (cases "uuid_in i")
    case None
    then show ?thesis
      by (simp add: delete_admin_consultation_def delete_rows_id_def)
  next
    case (Some u)
    then have p: "(\<lambda>c. uuid_in i \<noteq> Some (id_c c)) = (\<lambda>c. id_c c \<noteq> u)"
      by auto
    show ?thesis
      unfolding p using Some same [of u]
      by (auto simp: delete_admin_consultation_def delete_rows_id_def delete_rows_def)
  qed
qed

theorem C9_delete_frame_witness:
  "reply (delete_admin_consultation ex_world ''00000000-0000-0000-0000-0000000000a9''
       [ex_other, ex_paid]) = Json 200 (SuccessBody True)
   \<and> db (delete_admin_consultation ex_world ''00000000-0000-0000-0000-0000000000a9''
       [ex_other, ex_paid]) = [ex_other, ex_paid]
   \<and> db (delete_admin_consultation ex_world ''00000000-0000-0000-0000-0000000000A1''
       [ex_other, ex_paid]) = [ex_other]
   \<and> db (delete_admin_consultation ex_world ''not-a-uuid'' [ex_other, ex_paid])
       = [ex_other, ex_paid]"
  using C9_delete_frame [of "''00000000-0000-0000-0000-0000000000a9''" ex_world "[ex_other, ex_paid]"]
    C9_delete_frame [of "''00000000-0000-0000-0000-0000000000A1''" ex_world "[ex_other, ex_paid]"]
    C9_delete_frame [of "''not-a-uuid''" ex_world "[ex_other, ex_paid]"]
  by (simp add: ex_world_simps ex_uuid_simps ex_other_simps ex_paid_simps)

text \<open>
  An id that is not a \<^verbatim>\<open>UUID\<close> matches no row and is answered with 500, neither
  success nor not-found; so is a \<^verbatim>\<open>UUID\<close> that no row has when the store reports an
  error of its own.
\<close>

theorem C9_malformed_id_answers_500_counterexample:
  "uuid_in ''not-a-uuid'' = None
   \<and> \<not> delete_error ex_world
   \<and> reply (delete_admin_consultation ex_world ''not-a-uuid'' [ex_other, ex_paid])
       = Json 500 (ErrorBody ''Erreur lors de la suppression.'')
   \<and> uuid_in ''00000000-0000-0000-0000-0000000000a9'' = Some 0xa9
   \<and> 0xa9 \<notin> set (map id_c [ex_other, ex_paid])
   \<and> reply (delete_admin_consultation (ex_world \<lparr> delete_error := True \<rparr>)
        ''00000000-0000-0000-0000-0000000000a9'' [ex_other, ex_paid])
       = Json 500 (ErrorBody ''Erreur lors de la suppression.'')"
  by (simp add: delete_admin_consultation_def delete_rows_id_def delete_rows_def
      ex_uuid_simps ex_world_simps ex_other_simps ex_paid_simps)

subsection \<open>The statistics\<close>












subsection \<open>The admin gate\<close>

text \<open>With the session flag the three routes are their handlers; without it they answer 401.\<close>

lemma requireAdmin_routes:
  "route_admin_stats True w st = get_admin_stats w st"
  "route_admin_respond True w b st = post_admin_respond w b st"
  "route_admin_delete True w i st = delete_admin_consultation w i st"
  "reply (route_admin_respond False w b st)
     = Json 401 (ErrorBody (''Non autoris'' @ [CHR 0xC3, CHR 0xA9] @ ''.''))"
  "db (route_admin_respond False w b st) = st"
  "db (route_admin_delete False w i st) = st"
  by (simp_all add: route_admin_stats_def route_admin_respond_def route_admin_delete_def
      requireAdmin_def)

end
